theory Spec2Isabelle
  imports Complex_Main "HOL-Library.Sublist"
begin

section \<open>The TWSE exporter: fetch, cache, transform\<close>

text \<open>
  A shallow embedding of \<^verbatim>\<open>main.go\<close>: the upstream fetch (\<^verbatim>\<open>fetchStockInfo\<close>), the
  five-second cache in front of it (\<^verbatim>\<open>getCachedStockInfo\<close>) and the \<^verbatim>\<open>/metrics\<close>
  handler that turns the cached records into gauges. Everything the program asks of its
  surroundings (the HTTP client, the JSON decoder, \<^verbatim>\<open>strconv.ParseFloat\<close>, the clock, the
  metric-name check of the Prometheus client) is a field of a \<open>world\<close> record, one
  world per request. The package-level variables \<^verbatim>\<open>cacheData\<close> and
  \<^verbatim>\<open>cacheTimestamp\<close> are a record that every call takes and returns.
\<close>

subsection \<open>Data\<close>

text \<open>
  \<^verbatim>\<open>type StockInfo struct\<close>: 44 string fields, in the order of the source. The selectors
  keep the Go field names; \<^verbatim>\<open>Ex\<close> and \<^verbatim>\<open>O\<close> are written \<open>Ex'\<close> and \<open>O'\<close>, since
  \<open>Ex\<close> and \<open>O\<close> are taken in HOL.
\<close>

record StockInfo =
  At :: string
  Tv :: string
  Ps :: string
  Nu :: string
  Pid :: string
  Pz :: string
  Bp :: string
  Fv :: string
  Oa :: string
  Ob :: string
  M :: string
  Key :: string
  Caret :: string
  A :: string
  B :: string
  C :: string
  Hash :: string
  D :: string
  Percent :: string
  Ch :: string
  Tlong :: string
  Ot :: string
  F :: string
  G :: string
  Ip :: string
  Mt :: string
  Ov :: string
  H :: string
  It :: string
  Oz :: string
  L :: string
  N :: string
  O' :: string
  P :: string
  Ex' :: string
  S :: string
  T :: string
  U :: string
  V :: string
  W :: string
  Nf :: string
  Y :: string
  Z :: string
  Ts :: string

text \<open>\<^verbatim>\<open>type Response struct\<close> and \<^verbatim>\<open>type Config struct\<close>.\<close>

record Response =
  MsgArray :: "StockInfo list"

record Config =
  ExChList :: "string list"
  Address :: string
  Port :: int

text \<open>
  The package-level variables. A nil slice is the empty list. An instant
  (\<^verbatim>\<open>time.Time\<close>) is a number of nanoseconds on the clock's timeline, counted from the
  zero \<^verbatim>\<open>Time\<close>, which is the value \<^verbatim>\<open>cacheTimestamp\<close> starts with. The mutex is not
  part of the state: calls are run one after the other.
\<close>

record globals =
  cacheData :: "StockInfo list"
  cacheTimestamp :: int

definition initial :: globals where
  "initial = \<lparr>cacheData = [], cacheTimestamp = 0\<rparr>"

text \<open>
  How a call ends: it returns, or \<^verbatim>\<open>log.Fatalf\<close> prints its message and exits the
  process with status 1, or it panics. A panic inside an HTTP handler is recovered by
  \<^verbatim>\<open>net/http\<close>, which drops the connection without writing a response and keeps the
  process alive.
\<close>

datatype 'a run = Ret 'a | Exit string | Panic string

text \<open>
  What \<^verbatim>\<open>http.Get\<close> followed by \<^verbatim>\<open>io.ReadAll\<close> can yield: \<^verbatim>\<open>http.Get\<close> returns an error
  (no connection, timeout), or a response arrives with some status code and reading its
  body either fails or yields the bytes. A status outside 2xx is not an error of
  \<^verbatim>\<open>http.Get\<close>.
\<close>

datatype http_result =
    GetError string
  | ReadError nat string
  | Body nat string

text \<open>A gauge as the handler builds it, and what the handler writes.\<close>

record 'f Gauge =
  Name :: string
  Help :: string
  Value :: 'f

datatype 'f body = Text string | Exposition "'f Gauge list"

record 'f reply =
  status :: nat
  content :: "'f body"

text \<open>
  The surroundings of one request. \<open>clock_Since\<close> is the clock reading taken by
  \<^verbatim>\<open>time.Since\<close> in line 118 and \<open>clock_Now\<close> the one taken by \<^verbatim>\<open>time.Now()\<close> in line
  128. \<open>json_Unmarshal\<close> and \<open>ParseFloat\<close> return the error's text on the left.
  \<open>IsValidMetricName\<close> is the name check of the Prometheus client library.
\<close>

record 'f world =
  http_Get :: "string \<Rightarrow> http_result"
  json_Unmarshal :: "string \<Rightarrow> string + Response"
  ParseFloat :: "string \<Rightarrow> string + 'f"
  IsValidMetricName :: "string \<Rightarrow> bool"
  clock_Since :: int
  clock_Now :: int

subsection \<open>Library functions the source calls\<close>

text \<open>\<^verbatim>\<open>strings.Join\<close>.\<close>

fun Join :: "string list \<Rightarrow> string \<Rightarrow> string" where
  "Join [] sep = []"
| "Join [x] sep = x"
| "Join (x # y # xs) sep = x @ sep @ Join (y # xs) sep"

text \<open>
  \<^verbatim>\<open>fmt.Sprintf\<close> for the verbs the source uses on strings and errors, \<^verbatim>\<open>%s\<close> and
  \<^verbatim>\<open>%v\<close>: each verb is replaced by the next argument, every other byte of the format is
  copied, a verb with no argument left prints \<^verbatim>\<open>%!s(MISSING)\<close>. Every call in the
  source passes as many arguments as its format has verbs; arguments left over, which Go
  would report at the end of the output, are dropped here.
\<close>

fun Sprintf :: "string \<Rightarrow> string list \<Rightarrow> string" where
  "Sprintf [] args = []"
| "Sprintf [c] args = [c]"
| "Sprintf (c # d # fmt) args =
     (if c = CHR ''%'' \<and> (d = CHR ''s'' \<or> d = CHR ''v'')
      then (case args of
              [] \<Rightarrow> ''%!'' @ [d] @ ''(MISSING)'' @ Sprintf fmt []
            | a # rest \<Rightarrow> a @ Sprintf fmt rest)
      else c # Sprintf (d # fmt) args)"

text \<open>
  \<^verbatim>\<open>time.Duration\<close> is a signed 64-bit count of nanoseconds; the difference of two
  instants saturates at its bounds. \<^verbatim>\<open>time.Since(t)\<close> is the clock reading minus \<open>t\<close>.
\<close>

definition maxDuration :: int where
  "maxDuration = 2 ^ 63 - 1"

definition minDuration :: int where
  "minDuration = - (2 ^ 63)"

definition Second :: int where
  "Second = 1000000000"

definition Since :: "int \<Rightarrow> int \<Rightarrow> int" where
  "Since now t =
     (if now - t > maxDuration then maxDuration
      else if now - t < minDuration then minDuration
      else now - t)"

text \<open>
  \<^verbatim>\<open>prometheus.Registry\<close>, as far as the handler uses it: the collectors registered so
  far, in order. \<^verbatim>\<open>Register\<close> refuses a collector whose descriptor is invalid (the metric
  name fails the library's check) and one whose fully-qualified name is registered
  already; \<^verbatim>\<open>MustRegister\<close> panics where \<^verbatim>\<open>Register\<close> returns an error. The texts
  of the two errors are shortened.
\<close>

definition Register :: "'f world \<Rightarrow> 'f Gauge list \<Rightarrow> 'f Gauge \<Rightarrow> string + 'f Gauge list" where
  "Register w registry g =
     (if \<not> IsValidMetricName w (Name g)
      then Inl (Sprintf ''descriptor %s is invalid'' [Name g])
      else if Name g \<in> set (map Name registry)
      then Inl (Sprintf ''descriptor %s already exists'' [Name g])
      else Inr (registry @ [g]))"

definition MustRegister :: "'f world \<Rightarrow> 'f Gauge list \<Rightarrow> 'f Gauge \<Rightarrow> 'f Gauge list run" where
  "MustRegister w registry g =
     (case Register w registry g of
        Inl err \<Rightarrow> Panic err
      | Inr registry' \<Rightarrow> Ret registry')"

text \<open>\<^verbatim>\<open>http.Error\<close>: the status code, and the message followed by a newline.\<close>

definition http_Error :: "string \<Rightarrow> nat \<Rightarrow> 'f reply" where
  "http_Error msg code = \<lparr>status = code, content = Text (msg @ [CHR 0x0A])\<rparr>"

definition StatusInternalServerError :: nat where
  "StatusInternalServerError = 500"

definition StatusOK :: nat where
  "StatusOK = 200"

subsection \<open>fetchStockInfo\<close>

text \<open>
  Lines 85 to 112. The result is paired with the list of URLs requested from the
  upstream, so that fetches can be counted. Both \<^verbatim>\<open>log.Fatalf\<close> calls end the process;
  only the failure of \<^verbatim>\<open>json.Unmarshal\<close> is returned as an error. The status code of the
  response is never looked at.
\<close>

definition upstream_url :: "string list \<Rightarrow> string" where
  "upstream_url exChList =
     (let exCh = Join exChList ''|''
      in Sprintf ''http://mis.twse.com.tw/stock/api/getStockInfo.jsp?ex_ch=%s'' [exCh])"

definition fetchStockInfo ::
  "'f world \<Rightarrow> string list \<Rightarrow> (string + StockInfo list) run \<times> string list" where
  "fetchStockInfo w exChList =
     (let url = upstream_url exChList
      in (case http_Get w url of
            GetError err \<Rightarrow> Exit (Sprintf ''Failed to fetch stock info: %v'' [err])
          | ReadError code err \<Rightarrow> Exit (Sprintf ''Failed to read response body: %v'' [err])
          | Body code body \<Rightarrow>
              (case json_Unmarshal w body of
                 Inl err \<Rightarrow> Ret (Inl (Sprintf ''failed to unmarshal response: %v'' [err]))
               | Inr response \<Rightarrow> Ret (Inr (MsgArray response))),
          [url]))"

subsection \<open>getCachedStockInfo\<close>

text \<open>
  Lines 114 to 131. Returns how the call ended, the package-level variables after it and
  the URLs requested from the upstream.
\<close>

definition getCachedStockInfo ::
  "'f world \<Rightarrow> string list \<Rightarrow> globals \<Rightarrow> (string + StockInfo list) run \<times> globals \<times> string list" where
  "getCachedStockInfo w exChList g =
     (if Since (clock_Since w) (cacheTimestamp g) < 5 * Second
      then (Ret (Inr (cacheData g)), g, [])
      else (let (r, requested) = fetchStockInfo w exChList
            in (case r of
                  Ret (Inl err) \<Rightarrow> (Ret (Inl err), g, requested)
                | Ret (Inr stockInfos) \<Rightarrow>
                    (Ret (Inr stockInfos),
                     g\<lparr>cacheData := stockInfos, cacheTimestamp := clock_Now w\<rparr>,
                     requested)
                | Exit msg \<Rightarrow> (Exit msg, g, requested)
                | Panic msg \<Rightarrow> (Panic msg, g, requested))))"

subsection \<open>The /metrics handler\<close>

text \<open>Lines 166 and 167. The help format holds the UTF-8 bytes of the source's literal.\<close>

definition metricName :: "StockInfo \<Rightarrow> string" where
  "metricName info = Sprintf ''%s_%s_gauge'' [Ex' info, C info]"

definition metricHelp :: "StockInfo \<Rightarrow> string" where
  "metricHelp info =
     Sprintf (''%s_%s'' @ [CHR 0xE6, CHR 0x96, CHR 0xBC] @ ''%s %s''
                @ [CHR 0xE7, CHR 0x9A, CHR 0x84, CHR 0xE5, CHR 0x83, CHR 0xB9,
                   CHR 0xE6, CHR 0xA0, CHR 0xBC] @ ''%s'')
       [Ex' info, At info, D info, Percent info, Pz info]"

text \<open>
  The loop of lines 165 to 187 over the records still to do, with the registry built so
  far. It runs to the end and yields the full registry (on the right), or stops at the
  first price that does not parse and yields the error of \<^verbatim>\<open>ParseFloat\<close> (on the left),
  or ends in the panic of \<^verbatim>\<open>MustRegister\<close>.
\<close>

fun registerAll ::
  "'f world \<Rightarrow> 'f Gauge list \<Rightarrow> StockInfo list \<Rightarrow> (string + 'f Gauge list) run" where
  "registerAll w registry [] = Ret (Inr registry)"
| "registerAll w registry (info # rest) =
     (case ParseFloat w (Pz info) of
        Inl err \<Rightarrow> Ret (Inl err)
      | Inr price \<Rightarrow>
          (case MustRegister w registry
                  \<lparr>Name = metricName info, Help = metricHelp info, Value = price\<rparr> of
             Ret registry' \<Rightarrow> registerAll w registry' rest
           | Exit msg \<Rightarrow> Exit msg
           | Panic msg \<Rightarrow> Panic msg))"

text \<open>
  The handler of lines 153 to 192: how the request ends (a reply, the end of the process,
  or a panic), the package-level variables after it, the URLs requested from the upstream
  and the lines printed by \<^verbatim>\<open>log.Printf\<close>.
\<close>

record 'f served =
  outcome :: "'f reply run"
  vars :: globals
  upstream :: "string list"
  logged :: "string list"

definition metricsHandler :: "'f world \<Rightarrow> Config \<Rightarrow> globals \<Rightarrow> 'f served" where
  "metricsHandler w config g =
     (let (r, g', requested) = getCachedStockInfo w (ExChList config) g
      in (case r of
            Exit msg \<Rightarrow>
              \<lparr>outcome = Exit msg, vars = g', upstream = requested, logged = [msg]\<rparr>
          | Panic msg \<Rightarrow>
              \<lparr>outcome = Panic msg, vars = g', upstream = requested, logged = []\<rparr>
          | Ret (Inl err) \<Rightarrow>
              \<lparr>outcome = Ret (http_Error ''Failed to fetch stock info'' StatusInternalServerError),
               vars = g', upstream = requested,
               logged = [Sprintf ''Error fetching stock info: %v'' [err]]\<rparr>
          | Ret (Inr stockInfos) \<Rightarrow>
              (case registerAll w [] stockInfos of
                 Ret (Inl err) \<Rightarrow>
                   \<lparr>outcome = Ret (http_Error ''Failed to parse price'' StatusInternalServerError),
                    vars = g', upstream = requested,
                    logged = [Sprintf ''Failed to parse price: %v'' [err]]\<rparr>
               | Ret (Inr registry) \<Rightarrow>
                   \<lparr>outcome = Ret \<lparr>status = StatusOK, content = Exposition registry\<rparr>,
                    vars = g', upstream = requested, logged = []\<rparr>
               | Exit msg \<Rightarrow>
                   \<lparr>outcome = Exit msg, vars = g', upstream = requested, logged = [msg]\<rparr>
               | Panic msg \<Rightarrow>
                   \<lparr>outcome = Panic msg, vars = g', upstream = requested, logged = []\<rparr>)))"

text \<open>
  Requests served one after the other by one process, each in its own world: the
  replies, the variables at the end and all URLs requested. Nothing is served after the
  process has exited.
\<close>

fun scrapes :: "'f world list \<Rightarrow> Config \<Rightarrow> globals \<Rightarrow> 'f reply run list \<times> globals \<times> string list" where
  "scrapes [] config g = ([], g, [])"
| "scrapes (w # ws) config g =
     (let s = metricsHandler w config g
      in (case outcome s of
            Exit msg \<Rightarrow> ([Exit msg], vars s, upstream s)
          | _ \<Rightarrow>
              (let (rs, g', requested) = scrapes ws config (vars s)
               in (outcome s # rs, g', upstream s @ requested))))"

subsection \<open>Valid metric identifiers\<close>

text \<open>
  The specification's notion of a valid metric identifier (section 4.3): composed only
  of letters, digits and underscores, starting with a letter or an underscore. This
  predicate follows the specification's words; the source has no such check. Letters
  and digits are the ASCII ones.
\<close>

definition is_letter :: "char \<Rightarrow> bool" where
  "is_letter c = (c \<in> set ''abcdefghijklmnopqrstuvwxyzABCDEFGHIJKLMNOPQRSTUVWXYZ'')"

definition is_digit :: "char \<Rightarrow> bool" where
  "is_digit c = (c \<in> set ''0123456789'')"

definition identifier_char :: "char \<Rightarrow> bool" where
  "identifier_char c = (is_letter c \<or> is_digit c \<or> c = CHR ''_'')"

definition valid_metric_identifier :: "string \<Rightarrow> bool" where
  "valid_metric_identifier s =
     (case s of
        [] \<Rightarrow> False
      | c # cs \<Rightarrow> (is_letter c \<or> c = CHR ''_'') \<and> list_all identifier_char s)"

subsection \<open>Example records and worlds\<close>

text \<open>The zero value of \<^verbatim>\<open>StockInfo\<close>: every field the empty string.\<close>

definition zeroStockInfo :: StockInfo where
  "zeroStockInfo =
     \<lparr>At = [], Tv = [], Ps = [], Nu = [], Pid = [], Pz = [], Bp = [], Fv = [], Oa = [],
      Ob = [], M = [], Key = [], Caret = [], A = [], B = [], C = [], Hash = [], D = [],
      Percent = [], Ch = [], Tlong = [], Ot = [], F = [], G = [], Ip = [], Mt = [],
      Ov = [], H = [], It = [], Oz = [], L = [], N = [], O' = [], P = [], Ex' = [],
      S = [], T = [], U = [], V = [], W = [], Nf = [], Y = [], Z = [], Ts = []\<rparr>"

text \<open>Three records: a well-formed one, one whose price is not a number, and one whose
  category holds a dot.\<close>

definition quote_2330 :: StockInfo where
  "quote_2330 = zeroStockInfo\<lparr>At := ''2330.tw'', Pz := ''582.0'', C := ''2330'',
     D := ''20231020'', Percent := ''13:30:00'', Ex' := ''tse''\<rparr>"

definition quote_noprice :: StockInfo where
  "quote_noprice = zeroStockInfo\<lparr>At := ''2317.tw'', Pz := ''-'', C := ''2317'',
     D := ''20231020'', Percent := ''13:30:00'', Ex' := ''tse''\<rparr>"

definition quote_dotted :: StockInfo where
  "quote_dotted = zeroStockInfo\<lparr>At := ''t00.tw'', Pz := ''100'', C := ''t00.tw'',
     D := ''20231020'', Percent := ''13:30:00'', Ex' := ''tse''\<rparr>"

text \<open>
  A decoder and a number parser for the examples. The bodies are tokens standing for JSON
  documents with the records named; every other body is malformed. The parser agrees with
  \<^verbatim>\<open>strconv.ParseFloat\<close> on the prices of the three records.
\<close>

definition example_Unmarshal :: "string \<Rightarrow> string + Response" where
  "example_Unmarshal body =
     (if body = ''one'' then Inr \<lparr>MsgArray = [quote_2330]\<rparr>
      else if body = ''twice'' then Inr \<lparr>MsgArray = [quote_2330, quote_2330]\<rparr>
      else if body = ''noprice'' then Inr \<lparr>MsgArray = [quote_2330, quote_noprice]\<rparr>
      else if body = ''twice-noprice''
      then Inr \<lparr>MsgArray = [quote_2330, quote_2330, quote_noprice]\<rparr>
      else Inl ''invalid character'')"

definition example_ParseFloat :: "string \<Rightarrow> string + real" where
  "example_ParseFloat s =
     (if s = ''582.0'' then Inr 582
      else if s = ''100'' then Inr 100
      else Inl (''strconv.ParseFloat: parsing '' @ s @ '': invalid syntax''))"

definition example_world :: "http_result \<Rightarrow> int \<Rightarrow> int \<Rightarrow> real world" where
  "example_world res t1 t2 =
     \<lparr>http_Get = (\<lambda>url. res), json_Unmarshal = example_Unmarshal,
      ParseFloat = example_ParseFloat, IsValidMetricName = valid_metric_identifier,
      clock_Since = t1, clock_Now = t2\<rparr>"

definition example_config :: Config where
  "example_config = \<lparr>ExChList = [''tse_2330.tw'', ''tse_t00.tw''],
     Address = ''0.0.0.0'', Port = 9100\<rparr>"

text \<open>An instant in 2025, in seconds since the zero \<^verbatim>\<open>Time\<close>.\<close>

definition t0 :: int where
  "t0 = 63900000000"

section \<open>Properties\<close>

subsection \<open>Formatting\<close>

lemma metricName_eq: "metricName info = Ex' info @ ''_'' @ C info @ ''_gauge''"
  by (simp add: metricName_def)

lemma metricHelp_eq:
  "metricHelp info =
     Ex' info @ ''_'' @ At info @ [CHR 0xE6, CHR 0x96, CHR 0xBC] @ D info @ '' ''
       @ Percent info
       @ [CHR 0xE7, CHR 0x9A, CHR 0x84, CHR 0xE5, CHR 0x83, CHR 0xB9, CHR 0xE6, CHR 0xA0, CHR 0xBC]
       @ Pz info"
  by (simp add: metricHelp_def)

text \<open>
  C10. For every record, the metric name is exactly the exchange field (\<^verbatim>\<open>Ex\<close>), an
  underscore, the category field (\<^verbatim>\<open>C\<close>) and the fixed suffix \<^verbatim>\<open>_gauge\<close>; so every
  metric name ends in \<^verbatim>\<open>_gauge\<close>.
\<close>

theorem metricName_exchange_category_gauge:
  "metricName info = Ex' info @ ''_'' @ C info @ ''_gauge''
   \<and> suffix ''_gauge'' (metricName info)"
proof -
  have eq: "metricName info = (Ex' info @ ''_'' @ C info) @ ''_gauge''"
    by (simp add: metricName_eq)
  have "suffix ''_gauge'' ((Ex' info @ ''_'' @ C info) @ ''_gauge'')"
    by (rule suffix_appendI) simp
  with eq show ?thesis by simp
qed

text \<open>
  C7. For every record, the help string interpolates the record's exchange (\<^verbatim>\<open>Ex\<close>),
  name (\<^verbatim>\<open>At\<close>, the field read from the key \<^verbatim>\<open>@\<close>), date (\<^verbatim>\<open>D\<close>), percent change
  (\<^verbatim>\<open>Percent\<close>) and price (\<^verbatim>\<open>Pz\<close>), in this order, between the fixed pieces of the
  format; no other field of the record takes part. Name, date and percent change have no
  part in the metric name.
\<close>

theorem metricHelp_interpolates_five_fields:
  "metricHelp info =
     Ex' info @ ''_'' @ At info @ [CHR 0xE6, CHR 0x96, CHR 0xBC] @ D info @ '' ''
       @ Percent info
       @ [CHR 0xE7, CHR 0x9A, CHR 0x84, CHR 0xE5, CHR 0x83, CHR 0xB9, CHR 0xE6, CHR 0xA0, CHR 0xBC]
       @ Pz info
   \<and> metricName (info\<lparr>At := name, D := date, Percent := change\<rparr>) = metricName info"
  by (simp add: metricHelp_eq metricName_eq)

subsection \<open>Validity of metric names\<close>

lemma identifier_char_underscore: "identifier_char CHR ''_''"
  by (simp add: identifier_char_def)

lemma letter_not_digit: "is_letter c \<Longrightarrow> \<not> is_digit c"
  by (auto simp: is_letter_def is_digit_def)

lemma underscore_not_digit: "\<not> is_digit CHR ''_''"
  by (simp add: is_digit_def)

lemma identifier_start:
  "identifier_char c \<Longrightarrow> (is_letter c \<or> c = CHR ''_'') = (\<not> is_digit c)"
  using letter_not_digit [of c] underscore_not_digit
  by (auto simp: identifier_char_def)

lemma list_all_append_gauge:
  "list_all identifier_char (xs @ ''_gauge'') = list_all identifier_char xs"
  by (simp add: identifier_char_def is_letter_def)

lemma metricName_assoc: "metricName info = (Ex' info @ ''_'' @ C info) @ ''_gauge''"
  by (simp add: metricName_eq)

lemma list_all_metricName:
  "list_all identifier_char (metricName info) \<longleftrightarrow>
     list_all identifier_char (Ex' info) \<and> list_all identifier_char (C info)"
  unfolding metricName_assoc list_all_append_gauge
  by (simp add: identifier_char_underscore)

lemma valid_metricName_iff:
  "valid_metric_identifier (metricName info) \<longleftrightarrow>
     list_all identifier_char (Ex' info) \<and> list_all identifier_char (C info)
     \<and> (case Ex' info of [] \<Rightarrow> True | c # cs \<Rightarrow> \<not> is_digit c)"
proof (cases "Ex' info")
  case Nil
  have "valid_metric_identifier (metricName info) \<longleftrightarrow> list_all identifier_char (metricName info)"
    using Nil by (simp add: valid_metric_identifier_def metricName_eq)
  then show ?thesis
    using Nil by (simp add: list_all_metricName)
next
  case (Cons c cs)
  have "valid_metric_identifier (metricName info) \<longleftrightarrow>
      (is_letter c \<or> c = CHR ''_'') \<and> list_all identifier_char (metricName info)"
    using Cons by (simp add: valid_metric_identifier_def metricName_eq)
  then show ?thesis
    using Cons identifier_start [of c] by (auto simp: list_all_metricName)
qed

text \<open>
  C6, as the claim states it, fails: nothing is sanitized. The record with exchange
  \<^verbatim>\<open>tse\<close> and category \<^verbatim>\<open>t00.tw\<close> gets the name \<^verbatim>\<open>tse_t00.tw_gauge\<close>, which holds a dot.
\<close>

theorem metricName_not_sanitized:
  "metricName quote_dotted = ''tse_t00.tw_gauge''
   \<and> \<not> valid_metric_identifier (metricName quote_dotted)"
  by (simp add: metricName_eq quote_dotted_def zeroStockInfo_def valid_metric_identifier_def
      identifier_char_def is_letter_def is_digit_def)

text \<open>
  C6, amended. For every record, the metric name keeps the bytes of the exchange and
  category fields as they are, and it is a valid metric identifier exactly when both
  fields hold only letters, digits and underscores and the exchange field does not start
  with a digit.
\<close>

theorem metricName_valid_iff_fields_valid:
  "metricName info = Ex' info @ ''_'' @ C info @ ''_gauge''
   \<and> (valid_metric_identifier (metricName info) \<longleftrightarrow>
        list_all identifier_char (Ex' info) \<and> list_all identifier_char (C info)
        \<and> (case Ex' info of [] \<Rightarrow> True | c # cs \<Rightarrow> \<not> is_digit c))"
  using valid_metricName_iff [of info] by (simp add: metricName_eq)

theorem metricName_valid_iff_fields_valid_witness:
  "valid_metric_identifier (metricName quote_2330)
   \<and> list_all identifier_char (Ex' quote_2330) \<and> list_all identifier_char (C quote_2330)
   \<and> metricName quote_2330 = ''tse_2330_gauge''"
proof -
  have fields: "list_all identifier_char (Ex' quote_2330)"
    "list_all identifier_char (C quote_2330)"
    "case Ex' quote_2330 of [] \<Rightarrow> True | c # cs \<Rightarrow> \<not> is_digit c"
    by (simp_all add: quote_2330_def zeroStockInfo_def identifier_char_def is_letter_def
        is_digit_def)
  have name: "Ex' quote_2330 @ ''_'' @ C quote_2330 @ ''_gauge'' = ''tse_2330_gauge''"
    by (simp add: quote_2330_def zeroStockInfo_def)
  from metricName_valid_iff_fields_valid [of quote_2330]
  have "metricName quote_2330 = Ex' quote_2330 @ ''_'' @ C quote_2330 @ ''_gauge''"
    and "valid_metric_identifier (metricName quote_2330) \<longleftrightarrow>
        list_all identifier_char (Ex' quote_2330) \<and> list_all identifier_char (C quote_2330)
        \<and> (case Ex' quote_2330 of [] \<Rightarrow> True | c # cs \<Rightarrow> \<not> is_digit c)"
    by blast+
  with fields name show ?thesis by metis
qed

subsection \<open>The cache\<close>

lemma Since_less_TTL: "Since now t < 5 * Second \<longleftrightarrow> now - t < 5 * Second"
  by (simp add: Since_def maxDuration_def minDuration_def Second_def)

lemma snd_fetchStockInfo: "snd (fetchStockInfo w exChList) = [upstream_url exChList]"
  by (simp add: fetchStockInfo_def Let_def)

lemma fetchStockInfo_pair:
  "fetchStockInfo w exChList = (fst (fetchStockInfo w exChList), [upstream_url exChList])"
  using snd_fetchStockInfo [of w exChList] by (simp add: prod_eq_iff)

lemma getCachedStockInfo_hit:
  "Since (clock_Since w) (cacheTimestamp g) < 5 * Second \<Longrightarrow>
   getCachedStockInfo w exChList g = (Ret (Inr (cacheData g)), g, [])"
  by (simp add: getCachedStockInfo_def)

lemma getCachedStockInfo_miss_error:
  assumes "\<not> Since (clock_Since w) (cacheTimestamp g) < 5 * Second"
    and "fst (fetchStockInfo w exChList) = Ret (Inl err)"
  shows "getCachedStockInfo w exChList g = (Ret (Inl err), g, [upstream_url exChList])"
proof -
  have "fetchStockInfo w exChList = (Ret (Inl err), [upstream_url exChList])"
    using fetchStockInfo_pair [of w exChList] assms(2) by simp
  with assms(1) show ?thesis
    by (simp add: getCachedStockInfo_def)
qed

lemma getCachedStockInfo_miss_success:
  assumes "\<not> Since (clock_Since w) (cacheTimestamp g) < 5 * Second"
    and "fst (fetchStockInfo w exChList) = Ret (Inr stockInfos)"
  shows "getCachedStockInfo w exChList g =
    (Ret (Inr stockInfos), \<lparr>cacheData = stockInfos, cacheTimestamp = clock_Now w\<rparr>,
     [upstream_url exChList])"
proof -
  have "fetchStockInfo w exChList = (Ret (Inr stockInfos), [upstream_url exChList])"
    using fetchStockInfo_pair [of w exChList] assms(2) by simp
  with assms(1) show ?thesis
    by (simp add: getCachedStockInfo_def)
qed

lemma getCachedStockInfo_miss_exit:
  assumes "\<not> Since (clock_Since w) (cacheTimestamp g) < 5 * Second"
    and "fst (fetchStockInfo w exChList) = Exit msg"
  shows "getCachedStockInfo w exChList g = (Exit msg, g, [upstream_url exChList])"
proof -
  have "fetchStockInfo w exChList = (Exit msg, [upstream_url exChList])"
    using fetchStockInfo_pair [of w exChList] assms(2) by simp
  with assms(1) show ?thesis
    by (simp add: getCachedStockInfo_def)
qed

text \<open>What the handler passes on from the cache, whatever the loop does.\<close>

lemma metricsHandler_vars:
  "vars (metricsHandler w config g) = fst (snd (getCachedStockInfo w (ExChList config) g))"
  by (simp add: metricsHandler_def split: prod.splits run.splits sum.splits)

lemma metricsHandler_upstream:
  "upstream (metricsHandler w config g) = snd (snd (getCachedStockInfo w (ExChList config) g))"
  by (simp add: metricsHandler_def split: prod.splits run.splits sum.splits)

lemma MustRegister_no_exit: "MustRegister w registry gauge \<noteq> Exit msg"
  by (simp add: MustRegister_def split: sum.splits)

lemma registerAll_no_exit: "registerAll w registry infos \<noteq> Exit msg"
proof (induction infos arbitrary: registry)
  case Nil
  then show ?case by simp
next
  case (Cons info infos)
  then show ?case
    using MustRegister_no_exit [of w registry _ msg]
    by (auto split: sum.splits run.splits)
qed

lemma metricsHandler_no_exit:
  "fst (getCachedStockInfo w (ExChList config) g) = Ret r \<Longrightarrow>
   outcome (metricsHandler w config g) \<noteq> Exit msg"
  using registerAll_no_exit [of w "[]" _ msg]
  by (auto simp: metricsHandler_def split: prod.splits run.splits sum.splits)

lemma scrapes_two_upstream:
  assumes "\<And>msg. outcome (metricsHandler w1 config g) \<noteq> Exit msg"
  shows "snd (snd (scrapes [w1, w2] config g)) =
    upstream (metricsHandler w1 config g)
      @ upstream (metricsHandler w2 config (vars (metricsHandler w1 config g)))"
proof (cases "outcome (metricsHandler w1 config g)")
  case (Exit msg)
  with assms show ?thesis by blast
qed (simp_all add: Let_def split: run.splits prod.splits)

text \<open>The examples, evaluated.\<close>

lemma example_url:
  "upstream_url (ExChList example_config) =
     ''http://mis.twse.com.tw/stock/api/getStockInfo.jsp?ex_ch=tse_2330.tw|tse_t00.tw''"
  by (simp add: upstream_url_def example_config_def)

lemma example_fetch:
  "fst (fetchStockInfo (example_world res t1 t2) exChList) =
     (case res of
        GetError err \<Rightarrow> Exit (''Failed to fetch stock info: '' @ err)
      | ReadError code err \<Rightarrow> Exit (''Failed to read response body: '' @ err)
      | Body code body \<Rightarrow>
          (case example_Unmarshal body of
             Inl err \<Rightarrow> Ret (Inl (''failed to unmarshal response: '' @ err))
           | Inr response \<Rightarrow> Ret (Inr (MsgArray response))))"
  by (simp add: fetchStockInfo_def example_world_def Let_def
      split: http_result.splits sum.splits)

lemma example_clock:
  "clock_Since (example_world res t1 t2) = t1" "clock_Now (example_world res t1 t2) = t2"
  by (simp_all add: example_world_def)

lemma initial_expired: "\<not> Since (t0 * Second) (cacheTimestamp initial) < 5 * Second"
  by (simp add: Since_def initial_def t0_def Second_def maxDuration_def minDuration_def)

text \<open>
  C2. Whenever the time elapsed since \<^verbatim>\<open>cacheTimestamp\<close> is below five seconds,
  \<^verbatim>\<open>getCachedStockInfo\<close> returns the stored records and no error, leaves the variables
  as they are and requests nothing from the upstream, for every identifier list. Hence,
  when a scrape finds the cache expired and its fetch succeeds, and a second scrape
  reads the clock less than five seconds after the first did, the two scrapes together
  request the upstream exactly once.
\<close>

theorem fresh_cache_is_served_without_fetch:
  "(Since (clock_Since w) (cacheTimestamp g) < 5 * Second \<longrightarrow>
      getCachedStockInfo w exChList g = (Ret (Inr (cacheData g)), g, []))
   \<and> (\<not> Since (clock_Since w1) (cacheTimestamp g1) < 5 * Second
      \<and> fst (fetchStockInfo w1 (ExChList config)) = Ret (Inr stockInfos)
      \<and> clock_Since w1 \<le> clock_Now w1
      \<and> clock_Since w2 - clock_Since w1 < 5 * Second \<longrightarrow>
      snd (snd (scrapes [w1, w2] config g1)) = [upstream_url (ExChList config)])"
proof (intro conjI impI)
  assume "Since (clock_Since w) (cacheTimestamp g) < 5 * Second"
  then show "getCachedStockInfo w exChList g = (Ret (Inr (cacheData g)), g, [])"
    by (rule getCachedStockInfo_hit)
next
  assume two: "\<not> Since (clock_Since w1) (cacheTimestamp g1) < 5 * Second
      \<and> fst (fetchStockInfo w1 (ExChList config)) = Ret (Inr stockInfos)
      \<and> clock_Since w1 \<le> clock_Now w1
      \<and> clock_Since w2 - clock_Since w1 < 5 * Second"
  let ?g2 = "\<lparr>cacheData = stockInfos, cacheTimestamp = clock_Now w1\<rparr>"
  have first: "getCachedStockInfo w1 (ExChList config) g1 =
      (Ret (Inr stockInfos), ?g2, [upstream_url (ExChList config)])"
    using two by (simp add: getCachedStockInfo_miss_success)
  have vars1: "vars (metricsHandler w1 config g1) = ?g2"
    by (simp add: metricsHandler_vars first)
  have up1: "upstream (metricsHandler w1 config g1) = [upstream_url (ExChList config)]"
    by (simp add: metricsHandler_upstream first)
  have alive: "outcome (metricsHandler w1 config g1) \<noteq> Exit msg" for msg
    by (rule metricsHandler_no_exit [of _ _ _ "Inr stockInfos"]) (simp add: first)
  have "clock_Since w2 - clock_Now w1 < 5 * Second"
    using two by linarith
  then have "Since (clock_Since w2) (cacheTimestamp ?g2) < 5 * Second"
    by (simp add: Since_less_TTL)
  then have "getCachedStockInfo w2 (ExChList config) ?g2 = (Ret (Inr (cacheData ?g2)), ?g2, [])"
    by (rule getCachedStockInfo_hit)
  then have up2: "upstream (metricsHandler w2 config ?g2) = []"
    by (simp add: metricsHandler_upstream)
  show "snd (snd (scrapes [w1, w2] config g1)) = [upstream_url (ExChList config)]"
    using scrapes_two_upstream [of w1 config g1 w2] alive
    by (simp add: vars1 up1 up2)
qed

theorem fresh_cache_is_served_without_fetch_witness:
  "Since (clock_Since (example_world (GetError ''unreachable'') (t0 * Second + 4 * Second) 0))
      (cacheTimestamp \<lparr>cacheData = [quote_2330], cacheTimestamp = t0 * Second\<rparr>) < 5 * Second
   \<and> getCachedStockInfo (example_world (GetError ''unreachable'') (t0 * Second + 4 * Second) 0)
        [''tse_2330.tw''] \<lparr>cacheData = [quote_2330], cacheTimestamp = t0 * Second\<rparr>
      = (Ret (Inr [quote_2330]), \<lparr>cacheData = [quote_2330], cacheTimestamp = t0 * Second\<rparr>, [])
   \<and> \<not> Since (clock_Since (example_world (Body 200 ''one'') (t0 * Second) (t0 * Second + 1)))
        (cacheTimestamp initial) < 5 * Second
   \<and> fst (fetchStockInfo (example_world (Body 200 ''one'') (t0 * Second) (t0 * Second + 1))
        (ExChList example_config)) = Ret (Inr [quote_2330])
   \<and> clock_Since (example_world (Body 200 ''one'') (t0 * Second) (t0 * Second + 1))
        \<le> clock_Now (example_world (Body 200 ''one'') (t0 * Second) (t0 * Second + 1))
   \<and> clock_Since (example_world (Body 200 ''one'') (t0 * Second + 4 * Second)
          (t0 * Second + 4 * Second))
        - clock_Since (example_world (Body 200 ''one'') (t0 * Second) (t0 * Second + 1))
        < 5 * Second
   \<and> snd (snd (scrapes
        [example_world (Body 200 ''one'') (t0 * Second) (t0 * Second + 1),
         example_world (Body 200 ''one'') (t0 * Second + 4 * Second) (t0 * Second + 4 * Second)]
        example_config initial))
      = [''http://mis.twse.com.tw/stock/api/getStockInfo.jsp?ex_ch=tse_2330.tw|tse_t00.tw'']"
proof -
  let ?w = "example_world (GetError ''unreachable'') (t0 * Second + 4 * Second) 0"
  let ?g = "\<lparr>cacheData = [quote_2330], cacheTimestamp = t0 * Second\<rparr>"
  let ?w1 = "example_world (Body 200 ''one'') (t0 * Second) (t0 * Second + 1)"
  let ?w2 = "example_world (Body 200 ''one'') (t0 * Second + 4 * Second) (t0 * Second + 4 * Second)"
  have h1: "Since (clock_Since ?w) (cacheTimestamp ?g) < 5 * Second"
    by (simp add: example_clock Since_def maxDuration_def minDuration_def Second_def)
  have h2: "\<not> Since (clock_Since ?w1) (cacheTimestamp initial) < 5 * Second"
    using initial_expired by (simp add: example_clock)
  have h3: "fst (fetchStockInfo ?w1 (ExChList example_config)) = Ret (Inr [quote_2330])"
    by (simp add: example_fetch example_Unmarshal_def)
  have h4: "clock_Since ?w1 \<le> clock_Now ?w1"
    by (simp add: example_clock)
  have h5: "clock_Since ?w2 - clock_Since ?w1 < 5 * Second"
    by (simp add: example_clock Second_def)
  from fresh_cache_is_served_without_fetch
    [of ?w ?g "[''tse_2330.tw'']" ?w1 initial example_config "[quote_2330]" ?w2]
    h1 h2 h3 h4 h5
  show ?thesis
    by (simp add: example_url)
qed

text \<open>
  C3. Whenever the cache has expired and \<^verbatim>\<open>fetchStockInfo\<close> returns an error,
  \<^verbatim>\<open>getCachedStockInfo\<close> returns that error and leaves \<^verbatim>\<open>cacheData\<close> and
  \<^verbatim>\<open>cacheTimestamp\<close> as they were; the stored records are not returned in its place.
\<close>

theorem failed_fetch_keeps_cache_and_returns_error:
  assumes "\<not> Since (clock_Since w) (cacheTimestamp g) < 5 * Second"
    and "fst (fetchStockInfo w exChList) = Ret (Inl err)"
  shows "getCachedStockInfo w exChList g = (Ret (Inl err), g, [upstream_url exChList])
    \<and> fst (getCachedStockInfo w exChList g) \<noteq> Ret (Inr (cacheData g))"
  using assms by (simp add: getCachedStockInfo_miss_error)

theorem failed_fetch_keeps_cache_and_returns_error_witness:
  "\<not> Since (clock_Since (example_world (Body 200 ''<html>'') (t0 * Second + 6 * Second) 0))
        (cacheTimestamp \<lparr>cacheData = [quote_2330], cacheTimestamp = t0 * Second\<rparr>) < 5 * Second
   \<and> fst (fetchStockInfo (example_world (Body 200 ''<html>'') (t0 * Second + 6 * Second) 0)
        (ExChList example_config))
      = Ret (Inl ''failed to unmarshal response: invalid character'')
   \<and> getCachedStockInfo (example_world (Body 200 ''<html>'') (t0 * Second + 6 * Second) 0)
        (ExChList example_config) \<lparr>cacheData = [quote_2330], cacheTimestamp = t0 * Second\<rparr>
      = (Ret (Inl ''failed to unmarshal response: invalid character''),
         \<lparr>cacheData = [quote_2330], cacheTimestamp = t0 * Second\<rparr>,
         [''http://mis.twse.com.tw/stock/api/getStockInfo.jsp?ex_ch=tse_2330.tw|tse_t00.tw''])"
proof -
  let ?w = "example_world (Body 200 ''<html>'') (t0 * Second + 6 * Second) 0"
  let ?g = "\<lparr>cacheData = [quote_2330], cacheTimestamp = t0 * Second\<rparr>"
  have h1: "\<not> Since (clock_Since ?w) (cacheTimestamp ?g) < 5 * Second"
    by (simp add: example_clock Since_def maxDuration_def minDuration_def Second_def)
  have h2: "fst (fetchStockInfo ?w (ExChList example_config))
      = Ret (Inl ''failed to unmarshal response: invalid character'')"
    by (simp add: example_fetch example_Unmarshal_def)
  from failed_fetch_keeps_cache_and_returns_error [OF h1 h2] h1 h2 show ?thesis
    by (simp add: example_url)
qed

text \<open>
  C8. Whenever the cache has expired and \<^verbatim>\<open>fetchStockInfo\<close> returns records,
  \<^verbatim>\<open>getCachedStockInfo\<close> stores the new records and the new clock reading together and
  returns the new records. So a scrape that finds the cache expired requests the upstream
  exactly once, and with a clock that does not run backwards the stored timestamp is
  strictly later than the one before.
\<close>

theorem successful_fetch_replaces_records_and_timestamp:
  assumes "\<not> Since (clock_Since w) (cacheTimestamp g) < 5 * Second"
    and "fst (fetchStockInfo w (ExChList config)) = Ret (Inr stockInfos)"
    and "clock_Since w \<le> clock_Now w"
  shows "getCachedStockInfo w (ExChList config) g =
      (Ret (Inr stockInfos), \<lparr>cacheData = stockInfos, cacheTimestamp = clock_Now w\<rparr>,
       [upstream_url (ExChList config)])
    \<and> upstream (metricsHandler w config g) = [upstream_url (ExChList config)]
    \<and> vars (metricsHandler w config g) = \<lparr>cacheData = stockInfos, cacheTimestamp = clock_Now w\<rparr>
    \<and> cacheTimestamp g < cacheTimestamp (vars (metricsHandler w config g))"
proof -
  have get: "getCachedStockInfo w (ExChList config) g =
      (Ret (Inr stockInfos), \<lparr>cacheData = stockInfos, cacheTimestamp = clock_Now w\<rparr>,
       [upstream_url (ExChList config)])"
    using assms(1,2) by (rule getCachedStockInfo_miss_success)
  have "\<not> clock_Since w - cacheTimestamp g < 5 * Second"
    using assms(1) by (simp add: Since_less_TTL)
  then have "cacheTimestamp g < clock_Since w"
    by (simp add: Second_def)
  with assms(3) have later: "cacheTimestamp g < clock_Now w"
    by linarith
  show ?thesis
    using get later by (simp add: metricsHandler_vars metricsHandler_upstream)
qed

theorem successful_fetch_replaces_records_and_timestamp_witness:
  "\<not> Since (clock_Since (example_world (Body 200 ''one'') (t0 * Second + 6 * Second)
          (t0 * Second + 7 * Second)))
        (cacheTimestamp \<lparr>cacheData = [], cacheTimestamp = t0 * Second\<rparr>) < 5 * Second
   \<and> fst (fetchStockInfo (example_world (Body 200 ''one'') (t0 * Second + 6 * Second)
          (t0 * Second + 7 * Second)) (ExChList example_config)) = Ret (Inr [quote_2330])
   \<and> clock_Since (example_world (Body 200 ''one'') (t0 * Second + 6 * Second)
          (t0 * Second + 7 * Second))
      \<le> clock_Now (example_world (Body 200 ''one'') (t0 * Second + 6 * Second)
          (t0 * Second + 7 * Second))
   \<and> getCachedStockInfo (example_world (Body 200 ''one'') (t0 * Second + 6 * Second)
          (t0 * Second + 7 * Second)) (ExChList example_config)
        \<lparr>cacheData = [], cacheTimestamp = t0 * Second\<rparr>
      = (Ret (Inr [quote_2330]),
         \<lparr>cacheData = [quote_2330], cacheTimestamp = t0 * Second + 7 * Second\<rparr>,
         [''http://mis.twse.com.tw/stock/api/getStockInfo.jsp?ex_ch=tse_2330.tw|tse_t00.tw''])
   \<and> upstream (metricsHandler (example_world (Body 200 ''one'') (t0 * Second + 6 * Second)
          (t0 * Second + 7 * Second)) example_config
        \<lparr>cacheData = [], cacheTimestamp = t0 * Second\<rparr>)
      = [''http://mis.twse.com.tw/stock/api/getStockInfo.jsp?ex_ch=tse_2330.tw|tse_t00.tw'']
   \<and> vars (metricsHandler (example_world (Body 200 ''one'') (t0 * Second + 6 * Second)
          (t0 * Second + 7 * Second)) example_config
        \<lparr>cacheData = [], cacheTimestamp = t0 * Second\<rparr>)
      = \<lparr>cacheData = [quote_2330], cacheTimestamp = t0 * Second + 7 * Second\<rparr>"
proof -
  let ?w = "example_world (Body 200 ''one'') (t0 * Second + 6 * Second) (t0 * Second + 7 * Second)"
  let ?g = "\<lparr>cacheData = [], cacheTimestamp = t0 * Second\<rparr>"
  have h1: "\<not> Since (clock_Since ?w) (cacheTimestamp ?g) < 5 * Second"
    by (simp add: example_clock Since_def maxDuration_def minDuration_def Second_def)
  have h2: "fst (fetchStockInfo ?w (ExChList example_config)) = Ret (Inr [quote_2330])"
    by (simp add: example_fetch example_Unmarshal_def)
  have h3: "clock_Since ?w \<le> clock_Now ?w"
    by (simp add: example_clock Second_def)
  from successful_fetch_replaces_records_and_timestamp [OF h1 h2 h3] h1 h2 h3 show ?thesis
    by (simp add: example_url example_clock)
qed

subsection \<open>The handler\<close>

lemma MustRegister_fresh:
  "IsValidMetricName w (Name gauge) \<Longrightarrow> Name gauge \<notin> set (map Name registry) \<Longrightarrow>
   MustRegister w registry gauge = Ret (registry @ [gauge])"
  by (simp add: MustRegister_def Register_def)

lemma MustRegister_duplicate:
  "IsValidMetricName w (Name gauge) \<Longrightarrow> Name gauge \<in> set (map Name registry) \<Longrightarrow>
   MustRegister w registry gauge = Panic (''descriptor '' @ Name gauge @ '' already exists'')"
  by (simp add: MustRegister_def Register_def)

text \<open>
  The loop reaches the first record whose price does not parse when the records before
  it register: their prices parse, their names pass the library's check and are distinct
  from each other and from the names in the registry.
\<close>

lemma registerAll_first_unparsable:
  assumes "\<forall>info \<in> set pre. \<exists>price. ParseFloat w (Pz info) = Inr price"
    and "\<forall>info \<in> set pre. IsValidMetricName w (metricName info)"
    and "distinct (map metricName pre)"
    and "set (map metricName pre) \<inter> set (map Name registry) = {}"
    and "ParseFloat w (Pz bad) = Inl err"
  shows "registerAll w registry (pre @ bad # post) = Ret (Inl err)"
  using assms
proof (induction pre arbitrary: registry)
  case Nil
  then show ?case by simp
next
  case (Cons info pre)
  from Cons.prems(1) obtain price where price: "ParseFloat w (Pz info) = Inr price"
    by auto
  let ?gauge = "\<lparr>Name = metricName info, Help = metricHelp info, Value = price\<rparr>"
  have "IsValidMetricName w (Name ?gauge)"
    using Cons.prems(2) by simp
  moreover have "Name ?gauge \<notin> set (map Name registry)"
    using Cons.prems(4) by auto
  ultimately have reg: "MustRegister w registry ?gauge = Ret (registry @ [?gauge])"
    by (rule MustRegister_fresh)
  have "set (map metricName pre) \<inter> set (map Name (registry @ [?gauge])) = {}"
    using Cons.prems(3,4) by auto
  with Cons.prems have "registerAll w (registry @ [?gauge]) (pre @ bad # post) = Ret (Inl err)"
    by (intro Cons.IH) simp_all
  with price reg show ?case by simp
qed

lemma metricsHandler_outcome_records:
  "fst (getCachedStockInfo w (ExChList config) g) = Ret (Inr stockInfos) \<Longrightarrow>
   outcome (metricsHandler w config g) =
     (case registerAll w [] stockInfos of
        Ret (Inl err) \<Rightarrow> Ret (http_Error ''Failed to parse price'' StatusInternalServerError)
      | Ret (Inr registry) \<Rightarrow> Ret \<lparr>status = StatusOK, content = Exposition registry\<rparr>
      | Exit msg \<Rightarrow> Exit msg
      | Panic msg \<Rightarrow> Panic msg)"
  by (auto simp: metricsHandler_def split: prod.splits run.splits sum.splits)

lemma metricsHandler_logged_records:
  "fst (getCachedStockInfo w (ExChList config) g) = Ret (Inr stockInfos) \<Longrightarrow>
   logged (metricsHandler w config g) =
     (case registerAll w [] stockInfos of
        Ret (Inl err) \<Rightarrow> [''Failed to parse price: '' @ err]
      | Ret (Inr registry) \<Rightarrow> []
      | Exit msg \<Rightarrow> [msg]
      | Panic msg \<Rightarrow> [])"
  by (auto simp: metricsHandler_def split: prod.splits run.splits sum.splits)

lemma metricsHandler_outcome_error:
  "fst (getCachedStockInfo w (ExChList config) g) = Ret (Inl err) \<Longrightarrow>
   outcome (metricsHandler w config g) =
     Ret (http_Error ''Failed to fetch stock info'' StatusInternalServerError)"
  by (auto simp: metricsHandler_def split: prod.splits)

lemma metricsHandler_outcome_exit:
  "fst (getCachedStockInfo w (ExChList config) g) = Exit msg \<Longrightarrow>
   outcome (metricsHandler w config g) = Exit msg"
  by (auto simp: metricsHandler_def split: prod.splits)

text \<open>The example records in the example world.\<close>

lemma example_names:
  "metricName quote_2330 = ''tse_2330_gauge''"
  "metricName quote_noprice = ''tse_2317_gauge''"
  by (simp_all add: metricName_eq quote_2330_def quote_noprice_def zeroStockInfo_def)

lemma example_valid:
  "IsValidMetricName (example_world res t1 t2) ''tse_2330_gauge''"
  by (simp add: example_world_def valid_metric_identifier_def identifier_char_def
      is_letter_def is_digit_def)

lemma example_prices:
  "ParseFloat (example_world res t1 t2) (Pz quote_2330) = Inr 582"
  "ParseFloat (example_world res t1 t2) (Pz quote_noprice)
     = Inl ''strconv.ParseFloat: parsing -: invalid syntax''"
  by (simp_all add: example_world_def example_ParseFloat_def quote_2330_def quote_noprice_def
      zeroStockInfo_def)

lemma example_initial_expired:
  "\<not> Since (clock_Since (example_world res (t0 * Second) t2)) (cacheTimestamp initial) < 5 * Second"
  using initial_expired by (simp add: example_clock)

text \<open>
  How \<^verbatim>\<open>fetchStockInfo\<close> ends, by what the upstream does: a failure of \<^verbatim>\<open>http.Get\<close> or
  of reading the body ends the process, a body that does not decode is returned as an
  error, and the status code has no part in it.
\<close>

lemma fetchStockInfo_get_error:
  "http_Get w (upstream_url exChList) = GetError err \<Longrightarrow>
   fst (fetchStockInfo w exChList) = Exit (''Failed to fetch stock info: '' @ err)"
  by (simp add: fetchStockInfo_def Let_def)

lemma fetchStockInfo_read_error:
  "http_Get w (upstream_url exChList) = ReadError code err \<Longrightarrow>
   fst (fetchStockInfo w exChList) = Exit (''Failed to read response body: '' @ err)"
  by (simp add: fetchStockInfo_def Let_def)

lemma fetchStockInfo_decode_error:
  "http_Get w (upstream_url exChList) = Body code body \<Longrightarrow> json_Unmarshal w body = Inl err \<Longrightarrow>
   fst (fetchStockInfo w exChList) = Ret (Inl (''failed to unmarshal response: '' @ err))"
  by (simp add: fetchStockInfo_def Let_def)

lemma fetchStockInfo_decoded:
  "http_Get w (upstream_url exChList) = Body code body \<Longrightarrow>
   json_Unmarshal w body = Inr response \<Longrightarrow>
   fst (fetchStockInfo w exChList) = Ret (Inr (MsgArray response))"
  by (simp add: fetchStockInfo_def Let_def)

lemma decode_error_answers_500:
  assumes "\<not> Since (clock_Since w) (cacheTimestamp g) < 5 * Second"
    and "http_Get w (upstream_url (ExChList config)) = Body code body"
    and "json_Unmarshal w body = Inl err"
  shows "outcome (metricsHandler w config g) =
      Ret \<lparr>status = 500, content = Text (''Failed to fetch stock info'' @ [CHR 0x0A])\<rparr>"
    and "vars (metricsHandler w config g) = g"
proof -
  have "fst (fetchStockInfo w (ExChList config))
      = Ret (Inl (''failed to unmarshal response: '' @ err))"
    using assms(2,3) by (rule fetchStockInfo_decode_error)
  with assms(1) have get: "getCachedStockInfo w (ExChList config) g =
      (Ret (Inl (''failed to unmarshal response: '' @ err)), g,
       [upstream_url (ExChList config)])"
    by (rule getCachedStockInfo_miss_error)
  then show "outcome (metricsHandler w config g) =
      Ret \<lparr>status = 500, content = Text (''Failed to fetch stock info'' @ [CHR 0x0A])\<rparr>"
    by (simp add: metricsHandler_outcome_error http_Error_def StatusInternalServerError_def)
  from get show "vars (metricsHandler w config g) = g"
    by (simp add: metricsHandler_vars)
qed

lemma transport_error_exits:
  assumes "\<not> Since (clock_Since w) (cacheTimestamp g) < 5 * Second"
    and "http_Get w (upstream_url (ExChList config)) = GetError err"
  shows "outcome (metricsHandler w config g) = Exit (''Failed to fetch stock info: '' @ err)"
proof -
  have "fst (fetchStockInfo w (ExChList config)) = Exit (''Failed to fetch stock info: '' @ err)"
    using assms(2) by (rule fetchStockInfo_get_error)
  with assms(1) have "getCachedStockInfo w (ExChList config) g =
      (Exit (''Failed to fetch stock info: '' @ err), g, [upstream_url (ExChList config)])"
    by (rule getCachedStockInfo_miss_exit)
  then show ?thesis
    by (simp add: metricsHandler_outcome_exit)
qed

text \<open>
  C1 fails on the source for transport failures. With the upstream unreachable
  (\<^verbatim>\<open>http.Get\<close> returns an error) on the first scrape of a process, \<^verbatim>\<open>fetchStockInfo\<close>
  does not return: \<^verbatim>\<open>log.Fatalf\<close> ends the process, and the handler writes no reply.
  And a response with status 503 whose body decodes is not a failure at all: its records
  are returned.
\<close>

theorem unreachable_upstream_exits_process:
  "fst (fetchStockInfo (example_world (GetError ''connection refused'') (t0 * Second) (t0 * Second))
      (ExChList example_config))
     = Exit ''Failed to fetch stock info: connection refused''
   \<and> outcome (metricsHandler
        (example_world (GetError ''connection refused'') (t0 * Second) (t0 * Second))
        example_config initial)
     = Exit ''Failed to fetch stock info: connection refused''
   \<and> fst (fetchStockInfo (example_world (Body 503 ''one'') (t0 * Second) (t0 * Second))
        (ExChList example_config))
     = Ret (Inr [quote_2330])"
proof -
  let ?w = "example_world (GetError ''connection refused'') (t0 * Second) (t0 * Second)"
  have fetch: "fst (fetchStockInfo ?w (ExChList example_config))
      = Exit ''Failed to fetch stock info: connection refused''"
    by (simp add: example_fetch)
  have "getCachedStockInfo ?w (ExChList example_config) initial =
      (Exit ''Failed to fetch stock info: connection refused'', initial,
       [upstream_url (ExChList example_config)])"
    using example_initial_expired fetch by (rule getCachedStockInfo_miss_exit)
  then have "outcome (metricsHandler ?w example_config initial)
      = Exit ''Failed to fetch stock info: connection refused''"
    by (simp add: metricsHandler_outcome_exit)
  moreover have "fst (fetchStockInfo (example_world (Body 503 ''one'') (t0 * Second) (t0 * Second))
      (ExChList example_config)) = Ret (Inr [quote_2330])"
    by (simp add: example_fetch example_Unmarshal_def)
  ultimately show ?thesis
    using fetch by simp
qed

text \<open>
  Whenever all prices parse and all names pass the library's check, a name that occurs
  twice, or that is in the registry already, makes the loop panic.
\<close>

lemma registerAll_duplicate_panics:
  assumes "\<forall>info \<in> set infos. \<exists>price. ParseFloat w (Pz info) = Inr price"
    and "\<forall>info \<in> set infos. IsValidMetricName w (metricName info)"
    and "\<not> distinct (map metricName infos)
         \<or> set (map metricName infos) \<inter> set (map Name registry) \<noteq> {}"
  shows "\<exists>msg. registerAll w registry infos = Panic msg"
  using assms
proof (induction infos arbitrary: registry)
  case Nil
  then show ?case by simp
next
  case (Cons info infos)
  from Cons.prems(1) obtain price where price: "ParseFloat w (Pz info) = Inr price"
    by auto
  let ?gauge = "\<lparr>Name = metricName info, Help = metricHelp info, Value = price\<rparr>"
  have valid: "IsValidMetricName w (Name ?gauge)"
    using Cons.prems(2) by simp
  show ?case
  proof (cases "metricName info \<in> set (map Name registry)")
    case True
    then have "MustRegister w registry ?gauge
        = Panic (''descriptor '' @ Name ?gauge @ '' already exists'')"
      using valid by (intro MustRegister_duplicate) simp_all
    with price show ?thesis by simp
  next
    case False
    then have reg: "MustRegister w registry ?gauge = Ret (registry @ [?gauge])"
      using valid by (intro MustRegister_fresh) simp_all
    have "\<not> distinct (map metricName infos)
        \<or> set (map metricName infos) \<inter> set (map Name (registry @ [?gauge])) \<noteq> {}"
      using Cons.prems(3) False by auto
    with Cons.prems(1,2) have "\<exists>msg. registerAll w (registry @ [?gauge]) infos = Panic msg"
      by (intro Cons.IH) simp_all
    with price reg show ?thesis by simp
  qed
qed

text \<open>
  C5 fails on the source. With two records of the same exchange and category in one
  response, the second \<^verbatim>\<open>MustRegister\<close> panics: the handler writes no reply, neither a
  500 nor any other.
\<close>

theorem duplicate_metric_name_panics:
  "fst (getCachedStockInfo (example_world (Body 200 ''twice'') (t0 * Second) (t0 * Second))
      (ExChList example_config) initial) = Ret (Inr [quote_2330, quote_2330])
   \<and> outcome (metricsHandler (example_world (Body 200 ''twice'') (t0 * Second) (t0 * Second))
        example_config initial)
     = Panic ''descriptor tse_2330_gauge already exists''"
proof -
  let ?w = "example_world (Body 200 ''twice'') (t0 * Second) (t0 * Second)"
  have fetch: "fst (fetchStockInfo ?w (ExChList example_config))
      = Ret (Inr [quote_2330, quote_2330])"
    by (simp add: example_fetch example_Unmarshal_def)
  have get: "fst (getCachedStockInfo ?w (ExChList example_config) initial)
      = Ret (Inr [quote_2330, quote_2330])"
    using getCachedStockInfo_miss_success [OF example_initial_expired fetch] by simp
  have loop: "registerAll ?w [] [quote_2330, quote_2330]
      = Panic ''descriptor tse_2330_gauge already exists''"
    by (simp add: example_prices example_names example_valid MustRegister_fresh
        MustRegister_duplicate)
  have "outcome (metricsHandler ?w example_config initial)
      = Panic ''descriptor tse_2330_gauge already exists''"
    unfolding metricsHandler_outcome_records [OF get] loop by simp
  with get show ?thesis by simp
qed

text \<open>
  The parse-error path of lines 175 to 180. When the records before the first record with
  an unparsable price are registered (their prices parse, their metric names pass the
  library's check and are pairwise distinct), the loop stops at that record: the handler
  logs the error of \<^verbatim>\<open>ParseFloat\<close> for that record's price, answers 500 with the body
  \<^verbatim>\<open>Failed to parse price\<close>, and writes no metric output.
\<close>

lemma parse_error_answers_500:
  assumes "fst (getCachedStockInfo w (ExChList config) g) = Ret (Inr (pre @ bad # post))"
    and "\<forall>info \<in> set pre. \<exists>price. ParseFloat w (Pz info) = Inr price"
    and "\<forall>info \<in> set pre. IsValidMetricName w (metricName info)"
    and "distinct (map metricName pre)"
    and "ParseFloat w (Pz bad) = Inl err"
  shows "registerAll w [] (pre @ bad # post) = Ret (Inl err)
    \<and> outcome (metricsHandler w config g)
        = Ret \<lparr>status = 500, content = Text (''Failed to parse price'' @ [CHR 0x0A])\<rparr>
    \<and> logged (metricsHandler w config g) = [''Failed to parse price: '' @ err]"
proof -
  have loop: "registerAll w [] (pre @ bad # post) = Ret (Inl err)"
    using assms(2-5) by (intro registerAll_first_unparsable) simp_all
  have "outcome (metricsHandler w config g)
      = Ret \<lparr>status = 500, content = Text (''Failed to parse price'' @ [CHR 0x0A])\<rparr>"
    unfolding metricsHandler_outcome_records [OF assms(1)] loop
    by (simp add: http_Error_def StatusInternalServerError_def)
  moreover have "logged (metricsHandler w config g) = [''Failed to parse price: '' @ err]"
    unfolding metricsHandler_logged_records [OF assms(1)] loop by simp
  ultimately show ?thesis
    using loop by simp
qed

lemma example_parse_error_answers_500:
  "fst (getCachedStockInfo (example_world (Body 200 ''noprice'') (t0 * Second) (t0 * Second))
      (ExChList example_config) initial) = Ret (Inr ([quote_2330] @ quote_noprice # []))
   \<and> ParseFloat (example_world (Body 200 ''noprice'') (t0 * Second) (t0 * Second))
        (Pz quote_2330) = Inr 582
   \<and> IsValidMetricName (example_world (Body 200 ''noprice'') (t0 * Second) (t0 * Second))
        (metricName quote_2330)
   \<and> distinct (map metricName [quote_2330])
   \<and> ParseFloat (example_world (Body 200 ''noprice'') (t0 * Second) (t0 * Second))
        (Pz quote_noprice) = Inl ''strconv.ParseFloat: parsing -: invalid syntax''
   \<and> outcome (metricsHandler (example_world (Body 200 ''noprice'') (t0 * Second) (t0 * Second))
        example_config initial)
      = Ret \<lparr>status = 500, content = Text (''Failed to parse price'' @ [CHR 0x0A])\<rparr>
   \<and> logged (metricsHandler (example_world (Body 200 ''noprice'') (t0 * Second) (t0 * Second))
        example_config initial)
      = [''Failed to parse price: strconv.ParseFloat: parsing -: invalid syntax'']"
proof -
  let ?w = "example_world (Body 200 ''noprice'') (t0 * Second) (t0 * Second)"
  have fetch: "fst (fetchStockInfo ?w (ExChList example_config))
      = Ret (Inr [quote_2330, quote_noprice])"
    by (simp add: example_fetch example_Unmarshal_def)
  have h1: "fst (getCachedStockInfo ?w (ExChList example_config) initial)
      = Ret (Inr ([quote_2330] @ quote_noprice # []))"
    using getCachedStockInfo_miss_success [OF example_initial_expired fetch] by simp
  have h2: "\<forall>info \<in> set [quote_2330]. \<exists>price. ParseFloat ?w (Pz info) = Inr price"
    by (simp add: example_prices)
  have h3: "\<forall>info \<in> set [quote_2330]. IsValidMetricName ?w (metricName info)"
    by (simp add: example_names example_valid)
  have h4: "distinct (map metricName [quote_2330])"
    by simp
  have h5: "ParseFloat ?w (Pz quote_noprice) = Inl ''strconv.ParseFloat: parsing -: invalid syntax''"
    by (simp add: example_prices)
  from parse_error_answers_500 [OF h1 h2 h3 h4 h5] h1 h2 h3 h4 h5 show ?thesis
    by (simp add: example_prices)
qed

text \<open>
  C4 fails on the source. The sequence of two equal records followed by a record whose
  price is \<^verbatim>\<open>-\<close> contains a record whose price does not parse, so the scrape should
  answer 500 with no metric output. Instead the second \<^verbatim>\<open>MustRegister\<close> panics on the
  name registered already, before the loop reaches the third record: the handler writes
  no reply at all.
\<close>

theorem unparsable_price_behind_duplicate_gets_no_reply:
  "ParseFloat (example_world (Body 200 ''twice-noprice'') (t0 * Second) (t0 * Second))
      (Pz quote_noprice) = Inl ''strconv.ParseFloat: parsing -: invalid syntax''
   \<and> fst (getCachedStockInfo
        (example_world (Body 200 ''twice-noprice'') (t0 * Second) (t0 * Second))
        (ExChList example_config) initial) = Ret (Inr [quote_2330, quote_2330, quote_noprice])
   \<and> outcome (metricsHandler
        (example_world (Body 200 ''twice-noprice'') (t0 * Second) (t0 * Second))
        example_config initial)
     = Panic ''descriptor tse_2330_gauge already exists''"
proof -
  let ?w = "example_world (Body 200 ''twice-noprice'') (t0 * Second) (t0 * Second)"
  have fetch: "fst (fetchStockInfo ?w (ExChList example_config))
      = Ret (Inr [quote_2330, quote_2330, quote_noprice])"
    by (simp add: example_fetch example_Unmarshal_def)
  have get: "fst (getCachedStockInfo ?w (ExChList example_config) initial)
      = Ret (Inr [quote_2330, quote_2330, quote_noprice])"
    using getCachedStockInfo_miss_success [OF example_initial_expired fetch] by simp
  have loop: "registerAll ?w [] [quote_2330, quote_2330, quote_noprice]
      = Panic ''descriptor tse_2330_gauge already exists''"
    by (simp add: example_prices example_names example_valid MustRegister_fresh
        MustRegister_duplicate)
  have "outcome (metricsHandler ?w example_config initial)
      = Panic ''descriptor tse_2330_gauge already exists''"
    unfolding metricsHandler_outcome_records [OF get] loop by simp
  with get show ?thesis by (simp add: example_prices)
qed

end
